theory Spec2Isabelle
  imports Complex_Main
begin

section \<open>Tables, as pandas hands them to the two renderers\<close>

text \<open>
  Both renderers start with \<^verbatim>\<open>df = pd.read_csv(file_path, sep='\t', header=0)\<close>.
  A cell of the resulting frame is a string, a number, or missing (pandas' NaN, which
  \<^verbatim>\<open>read_csv\<close> produces for an empty field). Numbers are float64 in the
  program; here they are exact reals, so rounding error of the floating-point unit is
  not part of the model.

  A frame is a header (the column names) and a sequence of rows, each row giving a cell
  for a column name; only the names of the header are meaningful. Every row therefore
  has the same columns, as in a data frame.
\<close>

datatype cell = NA | Str string | Num real

record dataframe =
  columns :: "string list"
  rows :: "(string \<Rightarrow> cell) list"

datatype error =
    KeyError string
  | IndexError
  | TypeError
  | ValueError string
  | UnboundLocalError string
  | FileNotFoundError string

text \<open>\<^verbatim>\<open>df[c]\<close>: the column named \<open>c\<close>, or \<^verbatim>\<open>KeyError: c\<close>.\<close>

definition column_values :: "dataframe \<Rightarrow> string \<Rightarrow> cell list" where
  "column_values df c = map (\<lambda>r. r c) (rows df)"

definition getitem :: "dataframe \<Rightarrow> string \<Rightarrow> error + cell list" where
  "getitem df c =
     (if c \<in> set (columns df) then Inr (column_values df c) else Inl (KeyError c))"

text \<open>\<^verbatim>\<open>df[df[c] == name]\<close>: the rows whose cell in column \<open>c\<close> equals \<open>name\<close>.\<close>

definition filter_rows :: "dataframe \<Rightarrow> string \<Rightarrow> cell \<Rightarrow> dataframe" where
  "filter_rows df c name = df\<lparr>rows := filter (\<lambda>r. r c = name) (rows df)\<rparr>"

subsection \<open>\<^verbatim>\<open>Series.value_counts().to_dict()\<close>\<close>

text \<open>
  \<^verbatim>\<open>value_counts\<close> (with its defaults \<^verbatim>\<open>sort=True, ascending=False,
  dropna=True\<close>) counts the occurrences of every value that is not missing, in one pass
  that meets the keys in first-seen order (\<open>tally\<close>), and then sorts the counts in
  descending order. The sort is taken to be stable, so that keys with equal counts stay
  in first-seen order; what is proved below of every table does not depend on the order
  among equal counts.
  \<^verbatim>\<open>to_dict()\<close> keeps that order (a Python dict is ordered by insertion), and
  \<^verbatim>\<open>Circos(sectors, ...)\<close> lays the sectors out in the order of the dict.
\<close>

fun bump :: "cell \<Rightarrow> (cell \<times> nat) list \<Rightarrow> (cell \<times> nat) list" where
  "bump k [] = [(k, 1)]"
| "bump k ((k', n) # kvs) = (if k = k' then (k', Suc n) # kvs else (k', n) # bump k kvs)"

fun tally :: "cell list \<Rightarrow> (cell \<times> nat) list \<Rightarrow> (cell \<times> nat) list" where
  "tally [] acc = acc"
| "tally (x # xs) acc = tally xs (if x = NA then acc else bump x acc)"

definition value_counts :: "cell list \<Rightarrow> (cell \<times> nat) list" where
  "value_counts xs = sort_key (\<lambda>kv. - int (snd kv)) (tally xs [])"

text \<open>
  Line 41 of both renderers, \<^verbatim>\<open>sectors = df[track_1_data].value_counts().to_dict()\<close>:
  the sector names with their sizes, in the order in which \<^verbatim>\<open>Circos\<close> receives
  and lays them out.
\<close>

definition sectors_of :: "dataframe \<Rightarrow> string \<Rightarrow> error + (cell \<times> nat) list" where
  "sectors_of df track_1 =
     (case getitem df track_1 of
        Inl e \<Rightarrow> Inl e
      | Inr categories \<Rightarrow> Inr (value_counts categories))"

text \<open>
  The order the specification describes: every distinct value of the column, missing
  cells aside, at the place of its first occurrence.
\<close>

fun spec_first_seen :: "cell list \<Rightarrow> cell list \<Rightarrow> cell list" where
  "spec_first_seen [] seen = []"
| "spec_first_seen (x # xs) seen =
     (if x = NA \<or> x \<in> set seen then spec_first_seen xs seen
      else x # spec_first_seen xs (x # seen))"

section \<open>NumPy and Python helpers\<close>

text \<open>
  \<^verbatim>\<open>np.max(df[c])\<close> and \<^verbatim>\<open>np.min(df[c])\<close> go to the reduction of the
  Series, which skips missing cells; over no value at all the result is NaN, written
  \<open>None\<close> here. A column that holds strings makes the reduction, or the division by
  10 that follows it, raise \<^verbatim>\<open>TypeError\<close>.
\<close>

fun numeric_values :: "cell list \<Rightarrow> error + real list" where
  "numeric_values [] = Inr []"
| "numeric_values (NA # cs) = numeric_values cs"
| "numeric_values (Str s # cs) = Inl TypeError"
| "numeric_values (Num x # cs) =
     (case numeric_values cs of Inl e \<Rightarrow> Inl e | Inr xs \<Rightarrow> Inr (x # xs))"

definition np_max :: "cell list \<Rightarrow> error + real option" where
  "np_max cs =
     (case numeric_values cs of
        Inl e \<Rightarrow> Inl e
      | Inr [] \<Rightarrow> Inr None
      | Inr (x # xs) \<Rightarrow> Inr (Some (fold max xs x)))"

definition np_min :: "cell list \<Rightarrow> error + real option" where
  "np_min cs =
     (case numeric_values cs of
        Inl e \<Rightarrow> Inl e
      | Inr [] \<Rightarrow> Inr None
      | Inr (x # xs) \<Rightarrow> Inr (Some (fold min xs x)))"

text \<open>\<^verbatim>\<open>np.ceil(max_value / 10) * 10\<close> and \<^verbatim>\<open>np.floor(min_value / 10) * 10\<close>.\<close>

definition rounded_max_value :: "real \<Rightarrow> real" where
  "rounded_max_value max_value = of_int \<lceil>max_value / 10\<rceil> * 10"

definition rounded_min_value :: "real \<Rightarrow> real" where
  "rounded_min_value min_value = of_int \<lfloor>min_value / 10\<rfloor> * 10"

text \<open>
  \<^verbatim>\<open>np.arange(start, stop, step)\<close>: \<open>\<lceil>(stop - start) / step\<rceil>\<close> values
  \<open>start + i * step\<close> (none when that number is not positive). With a step of zero the
  length cannot be computed and NumPy raises \<^verbatim>\<open>ValueError\<close>.
\<close>

definition np_arange :: "real \<Rightarrow> real \<Rightarrow> real \<Rightarrow> error + real list" where
  "np_arange start stop step =
     (if step = 0 then Inl (ValueError ''Maximum allowed size exceeded'')
      else Inr (map (\<lambda>i. start + real i * step) [0..<nat \<lceil>(stop - start) / step\<rceil>]))"

text \<open>\<^verbatim>\<open>int(value)\<close> truncates towards zero; \<^verbatim>\<open>str\<close> prints in decimal.\<close>

definition py_int :: "real \<Rightarrow> int" where
  "py_int value = (if 0 \<le> value then \<lfloor>value\<rfloor> else \<lceil>value\<rceil>)"

fun digits :: "nat \<Rightarrow> string" where
  "digits n =
     (if n < 10 then [''0123456789'' ! n]
      else digits (n div 10) @ [''0123456789'' ! (n mod 10)])"

declare digits.simps [simp del]

definition py_str :: "int \<Rightarrow> string" where
  "py_str i = (if i < 0 then CHR ''-'' # digits (nat (- i)) else digits (nat i))"

text \<open>\<^verbatim>\<open>xs[i]\<close> on a Python list: a negative index counts from the end.\<close>

definition py_index :: "'a list \<Rightarrow> int \<Rightarrow> error + 'a" where
  "py_index xs i =
     (if 0 \<le> i \<and> i < int (length xs) then Inr (xs ! nat i)
      else if i < 0 \<and> - int (length xs) \<le> i then Inr (xs ! nat (int (length xs) + i))
      else Inl IndexError)"

section \<open>What a call draws\<close>

text \<open>
  The layout and drawing library is a collaborator: the model records what the
  renderers hand to it, ring by ring and sector by sector, and takes its calls to
  succeed. A colour of the active palette is the index given to
  \<^verbatim>\<open>ColorCycler\<close>.
\<close>

record axis_track =
  a_sector :: cell
  a_fc :: int
  a_text :: cell

record bar_track =
  b_sector :: cell
  b_xticks :: "real list"
  b_xlabels :: "cell list"
  b_line_color :: int
  b_yticks :: "real option list"
  b_ylabels :: "string list"
  b_x :: "real list"
  b_y :: "cell list"
  b_bar_color :: int

record heatmap_track =
  h_sector :: cell
  h_data :: "cell list"
  h_cmap :: string

record rect =
  r_start :: real
  r_end :: real
  r_fc :: int
  r_text :: cell
  r_x :: real

record rect_track =
  rt_sector :: cell
  rt_rects :: "rect list"

record driver_figure =
  d_sectors :: "(cell \<times> nat) list"
  d_palette :: string
  d_ring_a :: "axis_track list"
  d_ring_b :: "bar_track list"
  d_ring_c :: "heatmap_track list"
  d_texts :: "string list"

record hla_figure =
  f_sectors :: "(cell \<times> nat) list"
  f_palette :: string
  f_ring_a :: "axis_track list"
  f_ring_b :: "rect_track list"
  f_ring_c :: "bar_track list"
  f_texts :: "string list"

text \<open>
  The outcome of a call: the exception it raised, if any, and the files it wrote.
  \<^verbatim>\<open>fig.savefig(file_name, ...)\<close> is the last statement of both renderers and
  their only write.
\<close>

record 'f outcome =
  raised :: "error option"
  written :: "(string \<times> 'f) list"

definition finish :: "error + (string \<times> 'f) \<Rightarrow> 'f outcome" where
  "finish r =
     (case r of
        Inl e \<Rightarrow> \<lparr>raised = Some e, written = []\<rparr>
      | Inr nf \<Rightarrow> \<lparr>raised = None, written = [nf]\<rparr>)"

type_synonym files = "string \<rightharpoonup> dataframe"

definition read_csv :: "files \<Rightarrow> string \<Rightarrow> error + dataframe" where
  "read_csv fs path =
     (case fs path of None \<Rightarrow> Inl (FileNotFoundError path) | Some df \<Rightarrow> Inr df)"

text \<open>An argument the caller left out is \<open>None\<close>; the default of the signature takes its place.\<close>

definition arg :: "'a option \<Rightarrow> 'a \<Rightarrow> 'a" where
  "arg given dflt = (case given of None \<Rightarrow> dflt | Some v \<Rightarrow> v)"

subsection \<open>Ring A, the same loop in both renderers\<close>

fun cancer_type_track :: "int \<Rightarrow> (cell \<times> nat) list \<Rightarrow> axis_track list" where
  "cancer_type_track col_1 [] = []"
| "cancer_type_track col_1 ((name, sz) # sectors) =
     \<lparr>a_sector = name, a_fc = col_1 + 1, a_text = name\<rparr>
       # cancer_type_track (col_1 + 1) sectors"

section \<open>\<^verbatim>\<open>plot_circos\<close>, the driver renderer\<close>

record plot_circos_call =
  given_file_path :: "string option"
  given_palette :: "string option"
  given_track_1_data :: "string option"
  given_track_2_data :: "string option"
  given_bar_pal_start :: "int option"
  given_hmap_pal_start :: "int option"
  given_plot_title :: "string option"
  given_track_2_label :: "string option"
  given_file_name :: "string option"

record plot_circos_args =
  file_path :: string
  palette :: string
  track_1_data :: string
  track_2_data :: string
  bar_pal_start :: int
  hmap_pal_start :: int
  plot_title :: string
  track_2_label :: string
  file_name :: string

text \<open>
  The signature, lines 6 to 14: \<^verbatim>\<open>file_path\<close> has no default, so a call without it
  raises \<^verbatim>\<open>TypeError\<close>; every other parameter has one.
\<close>

definition bind_plot_circos :: "plot_circos_call \<Rightarrow> error + plot_circos_args" where
  "bind_plot_circos c =
     (case given_file_path c of
        None \<Rightarrow> Inl TypeError
      | Some p \<Rightarrow>
          Inr \<lparr>file_path = p,
               palette = arg (given_palette c) ''Set3'',
               track_1_data = arg (given_track_1_data c) ''Cancer_type'',
               track_2_data = arg (given_track_2_data c) ''Tumors'',
               bar_pal_start = arg (given_bar_pal_start c) 2,
               hmap_pal_start = arg (given_hmap_pal_start c) (- 1),
               plot_title = arg (given_plot_title c) [],
               track_2_label = arg (given_track_2_label c) [],
               file_name = arg (given_file_name c) ''plot.pdf''\<rparr>)"

text \<open>
  The y ticks of ring B: positions \<^verbatim>\<open>[0, vmax2 / 2, vmax2]\<close>, labels
  \<^verbatim>\<open>[str(int(value)) for value in np.arange(0, vmax2 + 1, vmax2 / 2)]\<close>. With
  \<open>vmax2\<close> NaN the length of the range cannot be computed either.
\<close>

definition bar_yticks :: "real option \<Rightarrow> real option list" where
  "bar_yticks vmax2 = [Some 0, map_option (\<lambda>v. v / 2) vmax2, vmax2]"

definition bar_ylabels :: "real option \<Rightarrow> error + string list" where
  "bar_ylabels vmax2 =
     (case vmax2 of
        None \<Rightarrow> Inl (ValueError ''arange: cannot compute length'')
      | Some v \<Rightarrow>
          (case np_arange 0 (v + 1) (v / 2) of
             Inl e \<Rightarrow> Inl e
           | Inr values \<Rightarrow> Inr (map (\<lambda>value. py_str (py_int value)) values)))"

fun tumor_frequency_track ::
  "dataframe \<Rightarrow> string \<Rightarrow> string \<Rightarrow> real option \<Rightarrow> int \<Rightarrow> (cell \<times> nat) list
     \<Rightarrow> error + bar_track list" where
  "tumor_frequency_track df t1 t2 vmax2 col_2 [] = Inr []"
| "tumor_frequency_track df t1 t2 vmax2 col_2 ((name, sz) # sectors) =
     (case getitem (filter_rows df t1 name) t2 of
        Inl e \<Rightarrow> Inl e
      | Inr y \<Rightarrow>
     (case getitem (filter_rows df t1 name) ''query'' of
        Inl e \<Rightarrow> Inl e
      | Inr labels \<Rightarrow>
     (case bar_ylabels vmax2 of
        Inl e \<Rightarrow> Inl e
      | Inr ylabels \<Rightarrow>
     (case tumor_frequency_track df t1 t2 vmax2 (col_2 + 1) sectors of
        Inl e \<Rightarrow> Inl e
      | Inr tracks \<Rightarrow>
          Inr (\<lparr>b_sector = name,
                b_xticks = map (\<lambda>i. real i + 0.4) [0..<sz],
                b_xlabels = labels,
                b_line_color = col_2 + 1,
                b_yticks = bar_yticks vmax2,
                b_ylabels = ylabels,
                b_x = map real [0..<sz],
                b_y = y,
                b_bar_color = col_2 + 1\<rparr> # tracks)))))"

definition pal_list :: "string list" where
  "pal_list = [''Reds'', ''Greens'', ''YlOrBr'', ''Blues'', ''Reds'', ''Purples'', ''Greys'']"

fun driver_status_track ::
  "dataframe \<Rightarrow> string \<Rightarrow> int \<Rightarrow> (cell \<times> nat) list \<Rightarrow> error + heatmap_track list" where
  "driver_status_track df t1 col_pal [] = Inr []"
| "driver_status_track df t1 col_pal ((name, sz) # sectors) =
     (case getitem (filter_rows df t1 name) ''driver'' of
        Inl e \<Rightarrow> Inl e
      | Inr data \<Rightarrow>
     (case py_index pal_list (col_pal + 1) of
        Inl e \<Rightarrow> Inl e
      | Inr cmap \<Rightarrow>
     (case driver_status_track df t1 (col_pal + 1) sectors of
        Inl e \<Rightarrow> Inl e
      | Inr tracks \<Rightarrow>
          Inr (\<lparr>h_sector = name, h_data = data, h_cmap = cmap\<rparr> # tracks))))"

text \<open>
  The body of \<^verbatim>\<open>plot_circos\<close> on the frame it has read. After the loop of ring A
  the label \<^verbatim>\<open>'A'\<close> is put on \<^verbatim>\<open>track1\<close>, the variable of the loop: with no
  sector at all that name is unbound.
\<close>

definition plot_circos_df :: "plot_circos_args \<Rightarrow> dataframe \<Rightarrow> error + driver_figure" where
  "plot_circos_df a df =
     (case sectors_of df (track_1_data a) of
        Inl e \<Rightarrow> Inl e
      | Inr sectors \<Rightarrow>
     (if sectors = [] then Inl (UnboundLocalError ''track1'')
      else
     (case getitem df (track_2_data a) of
        Inl e \<Rightarrow> Inl e
      | Inr frequencies \<Rightarrow>
     (case np_max frequencies of
        Inl e \<Rightarrow> Inl e
      | Inr max_value \<Rightarrow>
     (case tumor_frequency_track df (track_1_data a) (track_2_data a)
             (map_option rounded_max_value max_value) (bar_pal_start a) sectors of
        Inl e \<Rightarrow> Inl e
      | Inr ring_b \<Rightarrow>
     (case driver_status_track df (track_1_data a) (hmap_pal_start a) sectors of
        Inl e \<Rightarrow> Inl e
      | Inr ring_c \<Rightarrow>
          Inr \<lparr>d_sectors = sectors,
               d_palette = palette a,
               d_ring_a = cancer_type_track (bar_pal_start a) sectors,
               d_ring_b = ring_b,
               d_ring_c = ring_c,
               d_texts = [''A: Cancer type'', track_2_label a,
                          ''C: Driver gene status'', plot_title a]\<rparr>))))))"


section \<open>\<^verbatim>\<open>plot_circos_hla\<close>, the HLA renderer\<close>

record plot_circos_hla_call =
  hla_given_file_path :: "string option"
  hla_given_palette :: "string option"
  hla_given_track_1_data :: "string option"
  hla_given_track_2_data :: "string option"
  hla_given_track_3_data :: "string option"
  hla_given_track_3_labels :: "string option"
  hla_given_pal_start :: "int option"
  hla_given_plot_title :: "string option"
  hla_given_file_name :: "string option"

record plot_circos_hla_args =
  hla_file_path :: string
  hla_palette :: string
  hla_track_1_data :: string
  hla_track_2_data :: string
  hla_track_3_data :: string
  hla_track_3_labels :: string
  hla_pal_start :: int
  hla_plot_title :: string
  hla_file_name :: string

text \<open>
  The signature, lines 7 to 17: again only \<^verbatim>\<open>file_path\<close> has no default. The
  column names \<^verbatim>\<open>track_1_data\<close>, \<^verbatim>\<open>track_2_data\<close>, \<^verbatim>\<open>track_3_data\<close> and
  \<^verbatim>\<open>track_3_labels\<close> default to the empty string.
\<close>

definition bind_plot_circos_hla :: "plot_circos_hla_call \<Rightarrow> error + plot_circos_hla_args" where
  "bind_plot_circos_hla c =
     (case hla_given_file_path c of
        None \<Rightarrow> Inl TypeError
      | Some p \<Rightarrow>
          Inr \<lparr>hla_file_path = p,
               hla_palette = arg (hla_given_palette c) ''Set3'',
               hla_track_1_data = arg (hla_given_track_1_data c) [],
               hla_track_2_data = arg (hla_given_track_2_data c) [],
               hla_track_3_data = arg (hla_given_track_3_data c) [],
               hla_track_3_labels = arg (hla_given_track_3_labels c) [],
               hla_pal_start = arg (hla_given_pal_start c) 0,
               hla_plot_title = arg (hla_given_plot_title c) [],
               hla_file_name = arg (hla_given_file_name c) ''plot.pdf''\<rparr>)"

text \<open>
  Ring B: for \<^verbatim>\<open>i in range(int(track1.size))\<close> one rectangle from \<open>i\<close> to
  \<open>i + 1\<close> with the text \<^verbatim>\<open>length_list[i]\<close>, which raises \<^verbatim>\<open>IndexError\<close>
  past the end of the list.
\<close>

definition length_rects :: "int \<Rightarrow> cell list \<Rightarrow> nat \<Rightarrow> error + rect list" where
  "length_rects col_3 length_list sz =
     (if sz \<le> length length_list
      then Inr (map (\<lambda>i. \<lparr>r_start = real i, r_end = real i + 1, r_fc = col_3,
                           r_text = length_list ! i,
                           r_x = (real i + 1 + real i) / 2\<rparr>) [0..<sz])
      else Inl IndexError)"

fun peptide_length_track ::
  "dataframe \<Rightarrow> string \<Rightarrow> string \<Rightarrow> int \<Rightarrow> (cell \<times> nat) list \<Rightarrow> error + rect_track list" where
  "peptide_length_track df t1 t2 col_3 [] = Inr []"
| "peptide_length_track df t1 t2 col_3 ((name, sz) # sectors) =
     (case getitem (filter_rows df t1 name) t2 of
        Inl e \<Rightarrow> Inl e
      | Inr length_list \<Rightarrow>
     (case length_rects (col_3 + 1) length_list sz of
        Inl e \<Rightarrow> Inl e
      | Inr rects \<Rightarrow>
     (case peptide_length_track df t1 t2 (col_3 + 1) sectors of
        Inl e \<Rightarrow> Inl e
      | Inr tracks \<Rightarrow> Inr (\<lparr>rt_sector = name, rt_rects = rects\<rparr> # tracks))))"

text \<open>
  The y ticks of ring C, with \<open>vmax = 0\<close>: positions
  \<^verbatim>\<open>[vmax, vmin / 2, vmin]\<close>, labels
  \<^verbatim>\<open>[str(int(value)) for value in np.arange(0, vmin - 1, vmin / 2)]\<close>.
\<close>

definition hla_yticks :: "real option \<Rightarrow> real option list" where
  "hla_yticks vmin = [Some 0, map_option (\<lambda>v. v / 2) vmin, vmin]"

definition hla_ylabels :: "real option \<Rightarrow> error + string list" where
  "hla_ylabels vmin =
     (case vmin of
        None \<Rightarrow> Inl (ValueError ''arange: cannot compute length'')
      | Some v \<Rightarrow>
          (case np_arange 0 (v - 1) (v / 2) of
             Inl e \<Rightarrow> Inl e
           | Inr values \<Rightarrow> Inr (map (\<lambda>value. py_str (py_int value)) values)))"

fun hla_affinity_track ::
  "dataframe \<Rightarrow> string \<Rightarrow> string \<Rightarrow> string \<Rightarrow> real option \<Rightarrow> int \<Rightarrow> (cell \<times> nat) list
     \<Rightarrow> error + bar_track list" where
  "hla_affinity_track df t1 t3 t3l vmin col_2 [] = Inr []"
| "hla_affinity_track df t1 t3 t3l vmin col_2 ((name, sz) # sectors) =
     (case getitem (filter_rows df t1 name) t3 of
        Inl e \<Rightarrow> Inl e
      | Inr y \<Rightarrow>
     (case getitem (filter_rows df t1 name) t3l of
        Inl e \<Rightarrow> Inl e
      | Inr labels \<Rightarrow>
     (case hla_ylabels vmin of
        Inl e \<Rightarrow> Inl e
      | Inr ylabels \<Rightarrow>
     (case hla_affinity_track df t1 t3 t3l vmin (col_2 + 1) sectors of
        Inl e \<Rightarrow> Inl e
      | Inr tracks \<Rightarrow>
          Inr (\<lparr>b_sector = name,
                b_xticks = map (\<lambda>i. real i + 0.4) [0..<sz],
                b_xlabels = labels,
                b_line_color = col_2 + 1,
                b_yticks = hla_yticks vmin,
                b_ylabels = ylabels,
                b_x = map real [0..<sz],
                b_y = y,
                b_bar_color = col_2 + 1\<rparr> # tracks)))))"

definition plot_circos_hla_df ::
  "plot_circos_hla_args \<Rightarrow> dataframe \<Rightarrow> error + hla_figure" where
  "plot_circos_hla_df a df =
     (case sectors_of df (hla_track_1_data a) of
        Inl e \<Rightarrow> Inl e
      | Inr sectors \<Rightarrow>
     (if sectors = [] then Inl (UnboundLocalError ''track1'')
      else
     (case peptide_length_track df (hla_track_1_data a) (hla_track_2_data a)
             (hla_pal_start a) sectors of
        Inl e \<Rightarrow> Inl e
      | Inr ring_b \<Rightarrow>
     (case getitem df (hla_track_3_data a) of
        Inl e \<Rightarrow> Inl e
      | Inr bindings \<Rightarrow>
     (case np_min bindings of
        Inl e \<Rightarrow> Inl e
      | Inr min_value \<Rightarrow>
     (case hla_affinity_track df (hla_track_1_data a) (hla_track_3_data a)
             (hla_track_3_labels a) (map_option rounded_min_value min_value)
             (hla_pal_start a) sectors of
        Inl e \<Rightarrow> Inl e
      | Inr ring_c \<Rightarrow>
          Inr \<lparr>f_sectors = sectors,
               f_palette = hla_palette a,
               f_ring_a = cancer_type_track (hla_pal_start a) sectors,
               f_ring_b = ring_b,
               f_ring_c = ring_c,
               f_texts = [''A: HLA'', ''B: Length'', ''C: Peptide'',
                          ''D: HLA arena binding energy'']\<rparr>))))))"

definition plot_circos_hla :: "files \<Rightarrow> plot_circos_hla_call \<Rightarrow> hla_figure outcome" where
  "plot_circos_hla fs c =
     finish
       (case bind_plot_circos_hla c of
          Inl e \<Rightarrow> Inl e
        | Inr a \<Rightarrow>
       (case read_csv fs (hla_file_path a) of
          Inl e \<Rightarrow> Inl e
        | Inr df \<Rightarrow>
       (case plot_circos_hla_df a df of
          Inl e \<Rightarrow> Inl e
        | Inr fig \<Rightarrow> Inr (hla_file_name a, fig))))"

text \<open>A small table builder for examples: a row from the cells it lists.\<close>

definition mk_row :: "(string \<times> cell) list \<Rightarrow> string \<Rightarrow> cell" where
  "mk_row kvs c = (case map_of kvs c of None \<Rightarrow> NA | Some v \<Rightarrow> v)"

section \<open>Example tables\<close>

definition driver_example :: dataframe where
  "driver_example =
     \<lparr>columns = [''Cancer_type'', ''Tumors'', ''query'', ''driver''],
      rows =
        [mk_row [(''Cancer_type'', Str ''BRCA''), (''Tumors'', Num 12),
                 (''query'', Str ''g1''), (''driver'', Num 1)],
         mk_row [(''Cancer_type'', Str ''LUAD''), (''Tumors'', Num 30),
                 (''query'', Str ''g2''), (''driver'', Num 0)],
         mk_row [(''Cancer_type'', Str ''LUAD''), (''Tumors'', Num 5),
                 (''query'', Str ''g3''), (''driver'', Num 1)]]\<rparr>"

definition only_file_path :: "string \<Rightarrow> plot_circos_call" where
  "only_file_path p =
     \<lparr>given_file_path = Some p, given_palette = None, given_track_1_data = None,
      given_track_2_data = None, given_bar_pal_start = None, given_hmap_pal_start = None,
      given_plot_title = None, given_track_2_label = None, given_file_name = None\<rparr>"

definition missing_category_example :: dataframe where
  "missing_category_example =
     \<lparr>columns = [''Cancer_type'', ''Tumors'', ''query'', ''driver''],
      rows =
        [mk_row [(''Cancer_type'', Str ''BRCA''), (''Tumors'', Num 12),
                 (''query'', Str ''g1''), (''driver'', Num 1)],
         mk_row [(''Cancer_type'', NA), (''Tumors'', Num 7),
                 (''query'', Str ''g2''), (''driver'', Num 0)]]\<rparr>"





definition hla_example :: dataframe where
  "hla_example =
     \<lparr>columns = [''HLA'', ''Length'', ''Peptide'', ''Energy''],
      rows =
        [mk_row [(''HLA'', Str ''A0201''), (''Length'', Num 9),
                 (''Peptide'', Str ''p1''), (''Energy'', Num (- 23))],
         mk_row [(''HLA'', Str ''B0702''), (''Length'', Num 10),
                 (''Peptide'', Str ''p2''), (''Energy'', Num (- 7.5))],
         mk_row [(''HLA'', Str ''A0201''), (''Length'', Num 9),
                 (''Peptide'', Str ''p3''), (''Energy'', Num (- 11))]]\<rparr>"


definition hla_only_file_path :: "string \<Rightarrow> plot_circos_hla_call" where
  "hla_only_file_path p =
     \<lparr>hla_given_file_path = Some p, hla_given_palette = None,
      hla_given_track_1_data = None, hla_given_track_2_data = None,
      hla_given_track_3_data = None, hla_given_track_3_labels = None,
      hla_given_pal_start = None, hla_given_plot_title = None,
      hla_given_file_name = None\<rparr>"


definition driver_example_figure :: driver_figure where
  "driver_example_figure =
     \<lparr>d_sectors = [(Str ''LUAD'', 2), (Str ''BRCA'', 1)],
      d_palette = ''Set3'',
      d_ring_a =
        [\<lparr>a_sector = Str ''LUAD'', a_fc = 3, a_text = Str ''LUAD''\<rparr>,
         \<lparr>a_sector = Str ''BRCA'', a_fc = 4, a_text = Str ''BRCA''\<rparr>],
      d_ring_b =
        [\<lparr>b_sector = Str ''LUAD'', b_xticks = [0.4, 1.4],
           b_xlabels = [Str ''g2'', Str ''g3''], b_line_color = 3,
           b_yticks = [Some 0, Some 15, Some 30], b_ylabels = [''0'', ''15'', ''30''],
           b_x = [0, 1], b_y = [Num 30, Num 5], b_bar_color = 3\<rparr>,
         \<lparr>b_sector = Str ''BRCA'', b_xticks = [0.4],
           b_xlabels = [Str ''g1''], b_line_color = 4,
           b_yticks = [Some 0, Some 15, Some 30], b_ylabels = [''0'', ''15'', ''30''],
           b_x = [0], b_y = [Num 12], b_bar_color = 4\<rparr>],
      d_ring_c =
        [\<lparr>h_sector = Str ''LUAD'', h_data = [Num 0, Num 1], h_cmap = ''Reds''\<rparr>,
         \<lparr>h_sector = Str ''BRCA'', h_data = [Num 1], h_cmap = ''Greens''\<rparr>],
      d_texts = [''A: Cancer type'', [], ''C: Driver gene status'', []]\<rparr>"

definition driver_example_args :: plot_circos_args where
  "driver_example_args =
     \<lparr>file_path = ''d.tsv'', palette = ''Set3'', track_1_data = ''Cancer_type'',
      track_2_data = ''Tumors'', bar_pal_start = 2, hmap_pal_start = - 1,
      plot_title = [], track_2_label = [], file_name = ''plot.pdf''\<rparr>"

section \<open>Facts about the sector table\<close>

lemma bump_keys: "fst ` set (bump k kvs) = insert k (fst ` set kvs)"
  by (induction k kvs rule: bump.induct) auto

lemma bump_distinct: "distinct (map fst kvs) \<Longrightarrow> distinct (map fst (bump k kvs))"
proof (induction k kvs rule: bump.induct)
  case (1 k)
  then show ?case by simp
next
  case (2 k k' n kvs)
  then show ?case
    using bump_keys [of k kvs] by (auto simp del: bump.simps(2) simp add: bump.simps(2))
qed

lemma bump_sum: "sum_list (map snd (bump k kvs)) = Suc (sum_list (map snd kvs))"
  by (induction k kvs rule: bump.induct) auto

lemma bump_positive: "\<forall>kv \<in> set kvs. 0 < snd kv \<Longrightarrow> \<forall>kv \<in> set (bump k kvs). 0 < snd kv"
  by (induction k kvs rule: bump.induct) auto

lemma bump_map_of:
  "map_of (bump k kvs) =
     (map_of kvs)(k \<mapsto> (case map_of kvs k of None \<Rightarrow> 1 | Some c \<Rightarrow> Suc c))"
  by (induction k kvs rule: bump.induct) (auto simp: fun_eq_iff)

lemma tally_keys: "fst ` set (tally xs acc) = fst ` set acc \<union> (set xs - {NA})"
  by (induction xs acc rule: tally.induct) (auto simp: bump_keys)

lemma tally_distinct: "distinct (map fst acc) \<Longrightarrow> distinct (map fst (tally xs acc))"
  by (induction xs acc rule: tally.induct) (auto simp: bump_distinct)

lemma tally_sum:
  "sum_list (map snd (tally xs acc)) =
     sum_list (map snd acc) + length (filter (\<lambda>x. x \<noteq> NA) xs)"
  by (induction xs acc rule: tally.induct) (auto simp: bump_sum)

lemma tally_positive:
  "\<forall>kv \<in> set acc. 0 < snd kv \<Longrightarrow> \<forall>kv \<in> set (tally xs acc). 0 < snd kv"
proof (induction xs acc rule: tally.induct)
  case (1 acc)
  then show ?case by simp
next
  case (2 x xs acc)
  then show ?case using bump_positive [of acc x] by (cases "x = NA") simp_all
qed

lemma tally_map_of:
  "k \<noteq> NA \<Longrightarrow>
   map_of (tally xs acc) k =
     (case map_of acc k of
        None \<Rightarrow> (if k \<in> set xs then Some (count_list xs k) else None)
      | Some c \<Rightarrow> Some (c + count_list xs k))"
proof (induction xs acc rule: tally.induct)
  case (1 acc)
  then show ?case by (simp split: option.splits)
next
  case (2 x xs acc)
  then show ?case
    by (cases "x = NA") (auto simp: bump_map_of split: option.splits)
qed

lemma insort_key_sum:
  "sum_list (map g (insort_key f x xs)) = g x + sum_list (map g xs)"
  for g :: "'a \<Rightarrow> nat"
  by (induction xs) auto

lemma sort_key_sum: "sum_list (map g (sort_key f xs)) = sum_list (map g xs)"
  for g :: "'a \<Rightarrow> nat"
  by (induction xs) (auto simp: insort_key_sum)

lemma value_counts_set: "set (value_counts xs) = set (tally xs [])"
  by (simp add: value_counts_def)

lemma value_counts_keys: "fst ` set (value_counts xs) = set xs - {NA}"
  using tally_keys [of xs "[]"] by (simp add: value_counts_set)

lemma value_counts_distinct: "distinct (map fst (value_counts xs))"
proof -
  have d: "distinct (map fst (tally xs []))"
    by (rule tally_distinct) simp
  then have "distinct (tally xs [])"
    by (simp add: distinct_map)
  then have "distinct (value_counts xs)"
    by (simp add: value_counts_def)
  moreover have "inj_on fst (set (value_counts xs))"
    using d by (simp add: value_counts_set distinct_map)
  ultimately show ?thesis
    by (simp add: distinct_map)
qed

lemma value_counts_length: "length (value_counts xs) = card (set xs - {NA})"
proof -
  have "length (value_counts xs) = length (map fst (value_counts xs))"
    by simp
  also have "\<dots> = card (set (map fst (value_counts xs)))"
    using value_counts_distinct [of xs] by (rule distinct_card [symmetric])
  also have "\<dots> = card (set xs - {NA})"
    by (simp add: value_counts_keys)
  finally show ?thesis .
qed

lemma value_counts_sum:
  "sum_list (map snd (value_counts xs)) = length (filter (\<lambda>x. x \<noteq> NA) xs)"
  using tally_sum [of xs "[]"] by (simp add: value_counts_def sort_key_sum)

lemma value_counts_positive: "kv \<in> set (value_counts xs) \<Longrightarrow> 0 < snd kv"
  using tally_positive [of "[]" xs] by (simp add: value_counts_set)

lemma value_counts_count:
  assumes "(k, n) \<in> set (value_counts xs)"
  shows "k \<noteq> NA \<and> k \<in> set xs \<and> n = count_list xs k"
proof -
  have mem: "(k, n) \<in> set (tally xs [])"
    using assms by (simp add: value_counts_set)
  then have "k \<in> fst ` set (tally xs [])"
    by force
  then have k: "k \<in> set xs" "k \<noteq> NA"
    using tally_keys [of xs "[]"] by auto
  have "distinct (map fst (tally xs []))"
    by (rule tally_distinct) simp
  then have "map_of (tally xs []) k = Some n"
    using mem by simp
  then have "n = count_list xs k"
    using k by (simp add: tally_map_of)
  with k show ?thesis by simp
qed

lemma value_counts_descending: "sorted_wrt (\<lambda>m n. n \<le> m) (map snd (value_counts xs))"
proof -
  have "sorted (map (\<lambda>kv. - int (snd kv)) (value_counts xs))"
    unfolding value_counts_def by (rule sorted_sort_key)
  then show ?thesis
    by (simp add: sorted_map sorted_wrt_map)
qed

lemma count_list_map:
  "count_list (map f rs) k = length (filter (\<lambda>r. f r = k) rs)"
  by (induction rs) simp_all

lemma count_list_column:
  "count_list (column_values df c) k = length (rows (filter_rows df c k))"
  by (simp add: column_values_def filter_rows_def count_list_map)

lemma cancer_type_track_names:
  "map a_sector (cancer_type_track col_1 sectors) = map fst sectors"
  by (induction col_1 sectors rule: cancer_type_track.induct) simp_all

lemmas table_eval =
  sectors_of_def getitem_def column_values_def filter_rows_def mk_row_def value_counts_def

section \<open>The sectors\<close>

text \<open>
  Claim C1, in the form that holds of the code.
  For every input table, in both renderers, the sectors handed to the
  layout engine are exactly the distinct values of the category column that are not
  missing, each once and with the number of rows of its category as its size; they are
  laid out (and ring A is drawn) in the order of \<^verbatim>\<open>value_counts\<close>, which is by
  decreasing row count, not in the order in which the categories are first met.
\<close>

theorem sectors_distinct_values_by_decreasing_count:
  assumes "sectors_of df track_1 = Inr sectors"
  shows "set (map fst sectors) = set (column_values df track_1) - {NA}
       \<and> distinct (map fst sectors)
       \<and> map snd sectors =
           map (\<lambda>name. length (rows (filter_rows df track_1 name))) (map fst sectors)
       \<and> sorted_wrt (\<lambda>m n. n \<le> m) (map snd sectors)
       \<and> map a_sector (cancer_type_track col_1 sectors) = map fst sectors"
proof -
  from assms have s: "sectors = value_counts (column_values df track_1)"
    by (auto simp: sectors_of_def getitem_def split: if_splits)
  have sizes: "snd kv = length (rows (filter_rows df track_1 (fst kv)))"
    if "kv \<in> set sectors" for kv
  proof -
    from that have "(fst kv, snd kv) \<in> set (value_counts (column_values df track_1))"
      by (simp add: s)
    then show ?thesis
      using value_counts_count count_list_column by metis
  qed
  have "set (map fst sectors) = set (column_values df track_1) - {NA}"
    using value_counts_keys [of "column_values df track_1"] by (simp add: s)
  moreover have "distinct (map fst sectors)"
    by (simp add: s value_counts_distinct)
  moreover have "map snd sectors =
      map (\<lambda>name. length (rows (filter_rows df track_1 name))) (map fst sectors)"
    using sizes by simp
  moreover have "sorted_wrt (\<lambda>m n. n \<le> m) (map snd sectors)"
    by (simp add: s value_counts_descending)
  ultimately show ?thesis
    by (simp add: cancer_type_track_names)
qed

theorem sectors_distinct_values_by_decreasing_count_witness:
  "sectors_of driver_example ''Cancer_type'' = Inr [(Str ''LUAD'', 2), (Str ''BRCA'', 1)]
   \<and> set (map fst [(Str ''LUAD'', 2::nat), (Str ''BRCA'', 1)]) =
       set (column_values driver_example ''Cancer_type'') - {NA}
   \<and> sorted_wrt (\<lambda>m n. n \<le> m) (map snd [(Str ''LUAD'', 2::nat), (Str ''BRCA'', 1)])"
proof -
  have h: "sectors_of driver_example ''Cancer_type'' = Inr [(Str ''LUAD'', 2), (Str ''BRCA'', 1)]"
    by (simp add: table_eval driver_example_def)
  show ?thesis
    using h sectors_distinct_values_by_decreasing_count [OF h, of 0] by simp
qed

theorem sectors_first_seen_order_counterexample:
  "sectors_of driver_example ''Cancer_type'' = Inr [(Str ''LUAD'', 2), (Str ''BRCA'', 1)]
   \<and> map fst [(Str ''LUAD'', 2::nat), (Str ''BRCA'', 1)] \<noteq>
       spec_first_seen (column_values driver_example ''Cancer_type'') []"
  by (simp add: table_eval driver_example_def)

text \<open>
  Claim C5, in the form that holds of the code.
  For every input table, in both renderers, the number of sectors equals
  the number of distinct values of the category column that are not missing, the sector
  sizes sum to the number of rows whose category is not missing (the total row count
  when no category cell is missing: \<^verbatim>\<open>value_counts\<close> drops the others), and no
  sector has zero rows.
\<close>

theorem sector_count_and_sizes:
  assumes "sectors_of df track_1 = Inr sectors"
  shows "length sectors = card (set (column_values df track_1) - {NA})
       \<and> sum_list (map snd sectors) =
           length (filter (\<lambda>x. x \<noteq> NA) (column_values df track_1))
       \<and> (NA \<notin> set (column_values df track_1) \<longrightarrow>
            sum_list (map snd sectors) = length (rows df))
       \<and> 0 \<notin> set (map snd sectors)"
proof -
  from assms have s: "sectors = value_counts (column_values df track_1)"
    by (auto simp: sectors_of_def getitem_def split: if_splits)
  have total: "sum_list (map snd sectors) =
      length (filter (\<lambda>x. x \<noteq> NA) (column_values df track_1))"
    by (simp add: s value_counts_sum)
  have "filter (\<lambda>x. x \<noteq> NA) (column_values df track_1) = column_values df track_1"
    if "NA \<notin> set (column_values df track_1)"
    using that by (intro filter_True) auto
  moreover have "length (column_values df track_1) = length (rows df)"
    by (simp add: column_values_def)
  ultimately have all: "NA \<notin> set (column_values df track_1) \<longrightarrow>
      sum_list (map snd sectors) = length (rows df)"
    using total by auto
  have "0 \<notin> set (map snd sectors)"
    using value_counts_positive [of _ "column_values df track_1"] by (fastforce simp: s)
  with total all show ?thesis
    by (simp add: s value_counts_length)
qed

theorem sector_count_and_sizes_witness:
  "sectors_of driver_example ''Cancer_type'' = Inr [(Str ''LUAD'', 2), (Str ''BRCA'', 1)]
   \<and> NA \<notin> set (column_values driver_example ''Cancer_type'')
   \<and> sum_list (map snd [(Str ''LUAD'', 2::nat), (Str ''BRCA'', 1)]) =
       length (rows driver_example)
   \<and> length [(Str ''LUAD'', 2::nat), (Str ''BRCA'', 1)] =
       card (set (column_values driver_example ''Cancer_type'') - {NA})"
proof -
  have h: "sectors_of driver_example ''Cancer_type'' = Inr [(Str ''LUAD'', 2), (Str ''BRCA'', 1)]"
    by (simp add: table_eval driver_example_def)
  have n: "NA \<notin> set (column_values driver_example ''Cancer_type'')"
    by (simp add: table_eval driver_example_def)
  show ?thesis
    using h n sector_count_and_sizes [OF h] by simp
qed

theorem sector_sizes_row_count_counterexample:
  "sectors_of missing_category_example ''Cancer_type'' = Inr [(Str ''BRCA'', 1)]
   \<and> sum_list (map snd [(Str ''BRCA'', 1::nat)]) \<noteq> length (rows missing_category_example)"
  by (simp add: table_eval missing_category_example_def)

section \<open>The axis bounds\<close>






















section \<open>The y ticks of the HLA bar ring\<close>





section \<open>The palette cursors\<close>

lemma upt_shift: "map f [0..<Suc n] = f 0 # map (\<lambda>k. f (Suc k)) [0..<n]"
  by (simp only: upt_conv_Cons [of 0 "Suc n"] map_Suc_upt [symmetric]) (simp add: comp_def)

lemma cancer_type_track_colors:
  "map a_fc (cancer_type_track start sectors) =
     map (\<lambda>k. start + 1 + int k) [0..<length sectors]"
proof (induction start sectors rule: cancer_type_track.induct)
  case (1 col_1)
  then show ?case by simp
next
  case (2 col_1 name sz sectors)
  have "map (\<lambda>k. col_1 + 1 + int k) [0..<Suc (length sectors)] =
      (col_1 + 1) # map (\<lambda>k. col_1 + 1 + 1 + int k) [0..<length sectors]"
    by (subst upt_shift) (simp add: algebra_simps)
  with 2 show ?case by simp
qed

lemma tumor_frequency_track_colors:
  "tumor_frequency_track df t1 t2 vmax2 start sectors = Inr ring_b \<Longrightarrow>
   map b_bar_color ring_b = map (\<lambda>k. start + 1 + int k) [0..<length sectors]
   \<and> map b_line_color ring_b = map (\<lambda>k. start + 1 + int k) [0..<length sectors]"
proof (induction df t1 t2 vmax2 start sectors arbitrary: ring_b
       rule: tumor_frequency_track.induct)
  case (1 df t1 t2 vmax2 col_2)
  then show ?case by simp
next
  case (2 df t1 t2 vmax2 col_2 name sz sectors)
  from "2.prems" obtain y labels ylabels tracks where
    parts: "getitem (filter_rows df t1 name) t2 = Inr y"
      "getitem (filter_rows df t1 name) ''query'' = Inr labels"
      "bar_ylabels vmax2 = Inr ylabels"
      "tumor_frequency_track df t1 t2 vmax2 (col_2 + 1) sectors = Inr tracks"
    and rb: "b_bar_color (hd ring_b) = col_2 + 1" "b_line_color (hd ring_b) = col_2 + 1"
      "tl ring_b = tracks" "ring_b \<noteq> []"
    by (auto split: sum.splits)
  from "2.IH" [OF parts] have
    ih: "map b_bar_color tracks = map (\<lambda>k. col_2 + 1 + 1 + int k) [0..<length sectors]"
      "map b_line_color tracks = map (\<lambda>k. col_2 + 1 + 1 + int k) [0..<length sectors]"
    by simp_all
  have shift: "map (\<lambda>k. col_2 + 1 + int k) [0..<Suc (length sectors)] =
      (col_2 + 1) # map (\<lambda>k. col_2 + 1 + 1 + int k) [0..<length sectors]"
    by (subst upt_shift) (simp add: algebra_simps)
  from rb ih shift show ?case
    by (cases ring_b) simp_all
qed



lemma getitem_filter_rows:
  "c \<in> set (columns df) \<Longrightarrow>
   getitem (filter_rows df t1 name) c = Inr (column_values (filter_rows df t1 name) c)"
  by (simp add: getitem_def filter_rows_def)

lemma getitem_filter_rows_absent:
  "c \<notin> set (columns df) \<Longrightarrow> getitem (filter_rows df t1 name) c = Inl (KeyError c)"
  by (simp add: getitem_def filter_rows_def)




lemmas ring_eval =
  np_max_def rounded_max_value_def bar_ylabels_def bar_yticks_def np_arange_def
  py_int_def py_str_def digits.simps py_index_def pal_list_def upt_conv_Cons

lemma plot_circos_df_rings:
  assumes "plot_circos_df a df = Inr fig"
  shows "d_ring_a fig = cancer_type_track (bar_pal_start a) (d_sectors fig)
       \<and> (\<exists>vmax2. tumor_frequency_track df (track_1_data a) (track_2_data a) vmax2
                      (bar_pal_start a) (d_sectors fig) = Inr (d_ring_b fig))"
  using assms
  by (auto simp: plot_circos_df_def split: sum.splits if_splits)

lemma driver_example_run:
  "plot_circos_df driver_example_args driver_example = Inr driver_example_figure"
  by (simp add: plot_circos_df_def driver_example_args_def driver_example_figure_def
        table_eval ring_eval driver_example_def)

text \<open>
  Claim C8. In the driver renderer, for every input table and every bar-palette start
  offset, the colour cursor of ring A and the colour cursor of ring B, both seeded with
  the same start offset and incremented once per sector, yield the same colour-index
  sequence over the sectors: for every \<open>k\<close>, sector \<open>k\<close> has the index
  \<open>start + 1 + k\<close> in ring A, and in ring B both for its bars and for the line under
  its tick labels. This holds of the two loops whenever ring B is drawn, and so of the
  figure of every call that succeeds.
\<close>

theorem ring_a_ring_b_same_colors:
  "(tumor_frequency_track df t1 t2 vmax2 start sectors = Inr ring_b \<longrightarrow>
      map a_fc (cancer_type_track start sectors) = map b_bar_color ring_b
      \<and> map b_line_color ring_b = map b_bar_color ring_b
      \<and> length ring_b = length sectors
      \<and> (\<forall>k<length sectors.
            a_fc (cancer_type_track start sectors ! k) = start + 1 + int k
            \<and> b_bar_color (ring_b ! k) = start + 1 + int k))
   \<and> (plot_circos_df a table = Inr fig \<longrightarrow>
      map a_fc (d_ring_a fig) = map b_bar_color (d_ring_b fig)
      \<and> (\<forall>k<length (d_sectors fig).
            a_fc (d_ring_a fig ! k) = bar_pal_start a + 1 + int k
            \<and> b_bar_color (d_ring_b fig ! k) = bar_pal_start a + 1 + int k))"
proof -
  have loops: "map a_fc (cancer_type_track s ss) = map b_bar_color rb
      \<and> map b_line_color rb = map b_bar_color rb
      \<and> length rb = length ss
      \<and> (\<forall>k<length ss.
            a_fc (cancer_type_track s ss ! k) = s + 1 + int k
            \<and> b_bar_color (rb ! k) = s + 1 + int k)"
    if run: "tumor_frequency_track d c1 c2 v s ss = Inr rb" for d c1 c2 v s ss rb
  proof -
    let ?idx = "map (\<lambda>k. s + 1 + int k) [0..<length ss]"
    have a: "map a_fc (cancer_type_track s ss) = ?idx"
      by (rule cancer_type_track_colors)
    have b: "map b_bar_color rb = ?idx" "map b_line_color rb = ?idx"
      using tumor_frequency_track_colors [OF run] by simp_all
    have len: "length rb = length ss" "length (cancer_type_track s ss) = length ss"
      using arg_cong [OF b(1), of length] arg_cong [OF a, of length] by simp_all
    have "a_fc (cancer_type_track s ss ! k) = s + 1 + int k
        \<and> b_bar_color (rb ! k) = s + 1 + int k" if "k < length ss" for k
    proof -
      have "map a_fc (cancer_type_track s ss) ! k = ?idx ! k"
        "map b_bar_color rb ! k = ?idx ! k"
        by (simp_all only: a b)
      with that len show ?thesis by simp
    qed
    with a b len show ?thesis by simp
  qed
  have call: "map a_fc (d_ring_a fig) = map b_bar_color (d_ring_b fig)
      \<and> (\<forall>k<length (d_sectors fig).
            a_fc (d_ring_a fig ! k) = bar_pal_start a + 1 + int k
            \<and> b_bar_color (d_ring_b fig ! k) = bar_pal_start a + 1 + int k)"
    if "plot_circos_df a table = Inr fig"
  proof -
    from plot_circos_df_rings [OF that] obtain v where
      ra: "d_ring_a fig = cancer_type_track (bar_pal_start a) (d_sectors fig)"
      and rb: "tumor_frequency_track table (track_1_data a) (track_2_data a) v
                 (bar_pal_start a) (d_sectors fig) = Inr (d_ring_b fig)"
      by blast
    from loops [OF rb] show ?thesis
      by (simp add: ra)
  qed
  from loops call show ?thesis by blast
qed

theorem ring_a_ring_b_same_colors_witness:
  "plot_circos_df driver_example_args driver_example = Inr driver_example_figure
   \<and> map a_fc (d_ring_a driver_example_figure) = [3, 4]
   \<and> map b_bar_color (d_ring_b driver_example_figure) = [3, 4]
   \<and> map a_fc (d_ring_a driver_example_figure) =
       map b_bar_color (d_ring_b driver_example_figure)"
proof -
  have "map a_fc (d_ring_a driver_example_figure) = [3, 4]"
    "map b_bar_color (d_ring_b driver_example_figure) = [3, 4]"
    by (simp_all add: driver_example_figure_def)
  with driver_example_run
    ring_a_ring_b_same_colors
      [where a = driver_example_args and table = driver_example
         and fig = driver_example_figure]
  show ?thesis by blast
qed

section \<open>The colour scales of the heatmap ring\<close>




section \<open>How a call fails\<close>

lemma sectors_of_absent:
  "t1 \<notin> set (columns df) \<Longrightarrow> sectors_of df t1 = Inl (KeyError t1)"
  by (simp add: sectors_of_def getitem_def)

lemma sectors_of_present:
  "t1 \<in> set (columns df) \<Longrightarrow> sectors_of df t1 = Inr (value_counts (column_values df t1))"
  by (simp add: sectors_of_def getitem_def)

lemma sectors_of_Inr:
  "sectors_of df t1 = Inr sectors \<Longrightarrow>
   t1 \<in> set (columns df) \<and> sectors = value_counts (column_values df t1)"
  by (auto simp: sectors_of_def getitem_def split: if_splits)

lemma sectors_of_sizes:
  assumes "sectors_of df t1 = Inr sectors" and "kv \<in> set sectors"
  shows "snd kv = length (rows (filter_rows df t1 (fst kv)))"
proof -
  from assms(1) have "sectors = value_counts (column_values df t1)"
    by (simp add: sectors_of_Inr)
  with assms(2) have "(fst kv, snd kv) \<in> set (value_counts (column_values df t1))"
    by simp
  then show ?thesis
    using value_counts_count count_list_column by metis
qed

lemma getitem_absent: "c \<notin> set (columns df) \<Longrightarrow> getitem df c = Inl (KeyError c)"
  by (simp add: getitem_def)

lemma getitem_present: "c \<in> set (columns df) \<Longrightarrow> getitem df c = Inr (column_values df c)"
  by (simp add: getitem_def)

lemma numeric_values_error: "numeric_values cs = Inl e \<Longrightarrow> e = TypeError"
  by (induction cs arbitrary: e rule: numeric_values.induct) (auto split: sum.splits)


lemma np_min_error: "np_min cs = Inl e \<Longrightarrow> e = TypeError"
  by (auto simp: np_min_def numeric_values_error split: sum.splits list.splits)




subsection \<open>Where the rings of the driver renderer fail\<close>






subsection \<open>Where the rings of the HLA renderer fail\<close>

lemma peptide_length_track_first:
  "sectors \<noteq> [] \<Longrightarrow> t2 \<notin> set (columns df) \<Longrightarrow>
   peptide_length_track df t1 t2 start sectors = Inl (KeyError t2)"
  by (cases sectors) (auto simp: getitem_filter_rows_absent)

lemma peptide_length_track_ok:
  "t2 \<in> set (columns df) \<Longrightarrow>
   \<forall>kv \<in> set sectors. snd kv = length (rows (filter_rows df t1 (fst kv))) \<Longrightarrow>
   \<exists>ring_b. peptide_length_track df t1 t2 start sectors = Inr ring_b"
proof (induction df t1 t2 start sectors rule: peptide_length_track.induct)
  case (1 df t1 t2 col_3)
  then show ?case by simp
next
  case (2 df t1 t2 col_3 name sz sectors)
  let ?ls = "column_values (filter_rows df t1 name) t2"
  have g: "getitem (filter_rows df t1 name) t2 = Inr ?ls"
    using "2.prems"(1) by (rule getitem_filter_rows)
  have "sz = length ?ls"
    using "2.prems"(2) by (simp add: column_values_def)
  then obtain rects where r: "length_rects (col_3 + 1) ?ls sz = Inr rects"
    by (simp add: length_rects_def)
  have "\<forall>kv \<in> set sectors. snd kv = length (rows (filter_rows df t1 (fst kv)))"
    using "2.prems"(2) by simp
  from "2.IH" [OF g r "2.prems"(1) this] obtain tracks where
    "peptide_length_track df t1 t2 (col_3 + 1) sectors = Inr tracks"
    by blast
  with g r show ?case by simp
qed

lemma hla_affinity_track_first:
  assumes "sectors \<noteq> []" and "t3 \<in> set (columns df)"
  shows "t3l \<notin> set (columns df) \<Longrightarrow>
           hla_affinity_track df t1 t3 t3l vmin start sectors = Inl (KeyError t3l)"
    and "t3l \<in> set (columns df) \<Longrightarrow> hla_ylabels vmin = Inl e \<Longrightarrow>
           hla_affinity_track df t1 t3 t3l vmin start sectors = Inl e"
proof -
  from assms(1) obtain name sz rest where s: "sectors = (name, sz) # rest"
    by (cases sectors) auto
  show "t3l \<notin> set (columns df) \<Longrightarrow>
      hla_affinity_track df t1 t3 t3l vmin start sectors = Inl (KeyError t3l)"
    using assms(2) by (simp add: s getitem_filter_rows getitem_filter_rows_absent)
  show "t3l \<in> set (columns df) \<Longrightarrow> hla_ylabels vmin = Inl e \<Longrightarrow>
      hla_affinity_track df t1 t3 t3l vmin start sectors = Inl e"
    using assms(2) by (simp add: s getitem_filter_rows)
qed

lemma plot_circos_hla_df_absent:
  assumes "\<not> set [hla_track_1_data a, hla_track_2_data a, hla_track_3_data a,
                   hla_track_3_labels a] \<subseteq> set (columns df)"
  shows "\<exists>e. plot_circos_hla_df a df = Inl e
           \<and> ((\<exists>c \<in> set [hla_track_1_data a, hla_track_2_data a, hla_track_3_data a,
                           hla_track_3_labels a] - set (columns df). e = KeyError c)
              \<or> e = UnboundLocalError ''track1'' \<or> e = TypeError)"
proof (cases "hla_track_1_data a \<in> set (columns df)")
  case False
  then show ?thesis
    by (simp add: plot_circos_hla_df_def sectors_of_absent)
next
  case t1: True
  let ?sectors = "value_counts (column_values df (hla_track_1_data a))"
  have so: "sectors_of df (hla_track_1_data a) = Inr ?sectors"
    using t1 by (rule sectors_of_present)
  show ?thesis
  proof (cases "?sectors = []")
    case True
    with so show ?thesis
      by (simp add: plot_circos_hla_df_def)
  next
    case ne: False
    show ?thesis
    proof (cases "hla_track_2_data a \<in> set (columns df)")
      case False
      with so ne show ?thesis
        using peptide_length_track_first [OF ne False, of "hla_track_1_data a" "hla_pal_start a"]
        by (simp add: plot_circos_hla_df_def)
    next
      case t2: True
      have "\<forall>kv \<in> set ?sectors.
          snd kv = length (rows (filter_rows df (hla_track_1_data a) (fst kv)))"
        using sectors_of_sizes [OF so] by blast
      from peptide_length_track_ok [OF t2 this] obtain ring_b where
        rb: "peptide_length_track df (hla_track_1_data a) (hla_track_2_data a)
               (hla_pal_start a) ?sectors = Inr ring_b"
        by blast
      show ?thesis
      proof (cases "hla_track_3_data a \<in> set (columns df)")
        case False
        with so ne rb show ?thesis
          by (simp add: plot_circos_hla_df_def getitem_absent)
      next
        case t3: True
        with t1 t2 assms have t3l: "hla_track_3_labels a \<notin> set (columns df)"
          by simp
        show ?thesis
        proof (cases "np_min (column_values df (hla_track_3_data a))")
          case (Inl e)
          with so ne rb t3 show ?thesis
            by (simp add: plot_circos_hla_df_def getitem_present np_min_error)
        next
          case (Inr min_value)
          with so ne rb t3 t3l show ?thesis
            using hla_affinity_track_first(1) [OF ne t3 t3l, of "hla_track_1_data a"
                "map_option rounded_min_value min_value" "hla_pal_start a"]
            by (simp add: plot_circos_hla_df_def getitem_present)
        qed
      qed
    qed
  qed
qed

subsection \<open>The outcome of a call\<close>






lemma plot_circos_hla_bound:
  "bind_plot_circos_hla c = Inr a \<Longrightarrow> fs (hla_file_path a) = Some df \<Longrightarrow>
   plot_circos_hla fs c =
     finish (case plot_circos_hla_df a df of
               Inl e \<Rightarrow> Inl e
             | Inr fig \<Rightarrow> Inr (hla_file_name a, fig))"
  by (simp add: plot_circos_hla_def read_csv_def)


lemma plot_circos_hla_raises:
  "bind_plot_circos_hla c = Inr a \<Longrightarrow> fs (hla_file_path a) = Some df \<Longrightarrow>
   plot_circos_hla_df a df = Inl e \<Longrightarrow>
   raised (plot_circos_hla fs c) = Some e \<and> written (plot_circos_hla fs c) = []"
  by (simp add: plot_circos_hla_bound finish_def)



section \<open>Absent columns, and the single output file\<close>




section \<open>An axis bound of zero\<close>





section \<open>The defaults of the signatures\<close>

text \<open>
  Claim C9, in the form that holds of the code.
  Every option of both renderers has a default value in the signature, the
  HLA renderer's three data-column-name options included: their default (and that of
  \<^verbatim>\<open>track_3_labels\<close>) is the empty string, and only \<^verbatim>\<open>file_path\<close> is mandatory.
  A call of the HLA renderer that leaves one of the three column names out is therefore
  accepted, and then fails without output on every table that has no column of the empty
  name (with \<^verbatim>\<open>KeyError: ''\<close> when \<^verbatim>\<open>track_1_data\<close> is left out): a call that
  is to succeed has to supply those column names.
\<close>

theorem every_option_has_a_default:
  "bind_plot_circos (only_file_path p) =
     Inr \<lparr>file_path = p, palette = ''Set3'', track_1_data = ''Cancer_type'',
          track_2_data = ''Tumors'', bar_pal_start = 2, hmap_pal_start = - 1,
          plot_title = [], track_2_label = [], file_name = ''plot.pdf''\<rparr>
   \<and> bind_plot_circos_hla (hla_only_file_path p) =
     Inr \<lparr>hla_file_path = p, hla_palette = ''Set3'', hla_track_1_data = [],
          hla_track_2_data = [], hla_track_3_data = [], hla_track_3_labels = [],
          hla_pal_start = 0, hla_plot_title = [], hla_file_name = ''plot.pdf''\<rparr>
   \<and> (given_file_path c = Some p \<longrightarrow> (\<exists>a. bind_plot_circos c = Inr a))
   \<and> (hla_given_file_path hc = Some p \<longrightarrow> (\<exists>ha. bind_plot_circos_hla hc = Inr ha))
   \<and> (hla_given_file_path hc = Some p \<and> fs p = Some df \<and> [] \<notin> set (columns df)
        \<and> (hla_given_track_1_data hc = None \<or> hla_given_track_2_data hc = None
             \<or> hla_given_track_3_data hc = None) \<longrightarrow>
          raised (plot_circos_hla fs hc) \<noteq> None \<and> written (plot_circos_hla fs hc) = [])
   \<and> (hla_given_file_path hc = Some p \<and> fs p = Some df \<and> [] \<notin> set (columns df)
        \<and> hla_given_track_1_data hc = None \<longrightarrow>
          raised (plot_circos_hla fs hc) = Some (KeyError []))"
proof -
  have d: "bind_plot_circos (only_file_path p) =
     Inr \<lparr>file_path = p, palette = ''Set3'', track_1_data = ''Cancer_type'',
          track_2_data = ''Tumors'', bar_pal_start = 2, hmap_pal_start = - 1,
          plot_title = [], track_2_label = [], file_name = ''plot.pdf''\<rparr>"
    by (simp add: bind_plot_circos_def only_file_path_def arg_def)
  have h: "bind_plot_circos_hla (hla_only_file_path p) =
     Inr \<lparr>hla_file_path = p, hla_palette = ''Set3'', hla_track_1_data = [],
          hla_track_2_data = [], hla_track_3_data = [], hla_track_3_labels = [],
          hla_pal_start = 0, hla_plot_title = [], hla_file_name = ''plot.pdf''\<rparr>"
    by (simp add: bind_plot_circos_hla_def hla_only_file_path_def arg_def)
  have bd: "\<exists>a. bind_plot_circos c = Inr a" if "given_file_path c = Some p"
    using that by (simp add: bind_plot_circos_def)
  have bh: "\<exists>ha. bind_plot_circos_hla hc = Inr ha" if "hla_given_file_path hc = Some p"
    using that by (simp add: bind_plot_circos_hla_def)
  have fails: "raised (plot_circos_hla fs hc) \<noteq> None \<and> written (plot_circos_hla fs hc) = []"
    if fp: "hla_given_file_path hc = Some p" and f: "fs p = Some df"
      and nc: "[] \<notin> set (columns df)"
      and om: "hla_given_track_1_data hc = None \<or> hla_given_track_2_data hc = None
             \<or> hla_given_track_3_data hc = None"
  proof -
    from fp obtain ha where ha: "bind_plot_circos_hla hc = Inr ha"
      using bh by blast
    with fp have path: "hla_file_path ha = p"
      by (auto simp: bind_plot_circos_hla_def)
    from ha fp om have "hla_track_1_data ha = [] \<or> hla_track_2_data ha = []
        \<or> hla_track_3_data ha = []"
      by (auto simp: bind_plot_circos_hla_def arg_def)
    with nc have "\<not> set [hla_track_1_data ha, hla_track_2_data ha, hla_track_3_data ha,
        hla_track_3_labels ha] \<subseteq> set (columns df)"
      by auto
    from plot_circos_hla_df_absent [OF this] obtain e where
      "plot_circos_hla_df ha df = Inl e"
      by blast
    with ha f path show ?thesis
      using plot_circos_hla_raises [of hc ha fs df e] by simp
  qed
  have first: "raised (plot_circos_hla fs hc) = Some (KeyError [])"
    if fp: "hla_given_file_path hc = Some p" and f: "fs p = Some df"
      and nc: "[] \<notin> set (columns df)" and om: "hla_given_track_1_data hc = None"
  proof -
    from fp obtain ha where ha: "bind_plot_circos_hla hc = Inr ha"
      using bh by blast
    with fp om have path: "hla_file_path ha = p" and t1: "hla_track_1_data ha = []"
      by (auto simp: bind_plot_circos_hla_def arg_def)
    from nc t1 have "plot_circos_hla_df ha df = Inl (KeyError [])"
      by (simp add: plot_circos_hla_df_def sectors_of_absent)
    with ha f path show ?thesis
      using plot_circos_hla_raises [of hc ha fs df "KeyError []"] by simp
  qed
  from d h bd bh fails first show ?thesis by blast
qed

theorem every_option_has_a_default_witness:
  "hla_given_file_path (hla_only_file_path ''h.tsv'') = Some ''h.tsv''
   \<and> [''h.tsv'' \<mapsto> hla_example] ''h.tsv'' = Some hla_example
   \<and> [] \<notin> set (columns hla_example)
   \<and> hla_given_track_1_data (hla_only_file_path ''h.tsv'') = None
   \<and> raised (plot_circos_hla [''h.tsv'' \<mapsto> hla_example] (hla_only_file_path ''h.tsv'')) =
       Some (KeyError [])
   \<and> written (plot_circos_hla [''h.tsv'' \<mapsto> hla_example] (hla_only_file_path ''h.tsv'')) = []"
proof -
  have a: "hla_given_file_path (hla_only_file_path ''h.tsv'') = Some ''h.tsv''"
    by (simp add: hla_only_file_path_def)
  have b: "[''h.tsv'' \<mapsto> hla_example] ''h.tsv'' = Some hla_example"
    by simp
  have c: "[] \<notin> set (columns hla_example)"
    by (simp add: hla_example_def)
  have d: "hla_given_track_1_data (hla_only_file_path ''h.tsv'') = None"
    by (simp add: hla_only_file_path_def)
  from a b c d
    every_option_has_a_default
      [where hc = "hla_only_file_path ''h.tsv''" and p = "''h.tsv''"
         and fs = "[''h.tsv'' \<mapsto> hla_example]" and df = hla_example]
  show ?thesis by simp
qed

theorem hla_column_names_mandatory_counterexample:
  "bind_plot_circos_hla (hla_only_file_path ''h.tsv'') =
     Inr \<lparr>hla_file_path = ''h.tsv'', hla_palette = ''Set3'', hla_track_1_data = [],
          hla_track_2_data = [], hla_track_3_data = [], hla_track_3_labels = [],
          hla_pal_start = 0, hla_plot_title = [], hla_file_name = ''plot.pdf''\<rparr>"
  by (simp add: bind_plot_circos_hla_def hla_only_file_path_def arg_def)

end
